theory Spec2Isabelle
  imports Complex_Main
begin

section \<open>Quantum-circuit primitives (dreamcoder/domains/quantum_algorithms/primitives.py)\<close>

subsection \<open>Exceptions\<close>

text \<open>
  The primitives raise \<^verbatim>\<open>Exception(msg)\<close>; the timeout utility raises its own class
  \<^verbatim>\<open>RunWithTimeout\<close>. A computation that may raise returns \<open>exn + 'a\<close>, the exception
  on the left.
\<close>

datatype exn = Exception string | RunWithTimeout

text \<open>Calling a function on the outcome of evaluating its argument: a raise in the
  argument is a raise of the call.\<close>

definition call :: "('a \<Rightarrow> exn + 'b) \<Rightarrow> exn + 'a \<Rightarrow> exn + 'b" where
  "call f r = (case r of Inl e \<Rightarrow> Inl e | Inr v \<Rightarrow> f v)"

subsection \<open>Circuit states\<close>

text \<open>
  A circuit value is the two-element list \<^verbatim>\<open>[state, circuit]\<close>; \<^verbatim>\<open>state\<close> is the
  three-element list \<^verbatim>\<open>[position, direction, n_qubits]\<close> read through the index
  constants \<^verbatim>\<open>POS = 0\<close>, \<^verbatim>\<open>DIR = 1\<close>, \<^verbatim>\<open>N = 2\<close>, and \<^verbatim>\<open>circuit\<close> is the list of
  gate applications, each a list of the gate's name and its qubits. The operations
  update the lists in place and return them; here the updated value is returned.
\<close>

record state =
  POS :: int
  DIR :: int
  N :: int

type_synonym gate = "string \<times> int list"
type_synonym circuit = "state \<times> gate list"

definition DIR_NEXT :: int where "DIR_NEXT = 1"
definition DIR_PREV :: int where "DIR_PREV = - 1"

definition STATE_0 :: "int \<Rightarrow> state" where
  "STATE_0 n_qubits = \<lparr>POS = 0, DIR = DIR_NEXT, N = n_qubits\<rparr>"

text \<open>\<^verbatim>\<open>_change_direction\<close>\<close>

definition change_direction :: "circuit \<Rightarrow> exn + circuit" where
  "change_direction old_circuit =
     (case old_circuit of (state, circuit) \<Rightarrow>
        Inr (state\<lparr>DIR := DIR state * (- 1)\<rparr>, circuit))"

text \<open>\<^verbatim>\<open>_move_next\<close>\<close>

definition move_next :: "circuit \<Rightarrow> exn + circuit" where
  "move_next old_circuit =
     (case old_circuit of (state, circuit) \<Rightarrow>
        if POS state \<ge> N state - 1 then Inl (Exception ''Invalid selected qubit'')
        else Inr (state\<lparr>POS := POS state + 1\<rparr>, circuit))"

text \<open>\<^verbatim>\<open>_move_prev\<close>\<close>

definition move_prev :: "circuit \<Rightarrow> exn + circuit" where
  "move_prev old_circuit =
     (case old_circuit of (state, circuit) \<Rightarrow>
        if POS state \<le> 0 then Inl (Exception ''Invalid selected qubit'')
        else Inr (state\<lparr>POS := POS state - 1\<rparr>, circuit))"

text \<open>\<^verbatim>\<open>_no_op\<close>\<close>

definition no_op :: "int \<Rightarrow> circuit" where
  "no_op n = (STATE_0 n, [])"

text \<open>\<^verbatim>\<open>_hadamard\<close>\<close>

definition hadamard :: "circuit \<Rightarrow> exn + circuit" where
  "hadamard old_circuit =
     (case old_circuit of (state, circuit) \<Rightarrow>
        Inr (state, circuit @ [(''hadamard'', [POS state])]))"

text \<open>\<^verbatim>\<open>_cnot\<close>\<close>

definition cnot :: "circuit \<Rightarrow> exn + circuit" where
  "cnot old_circuit =
     (case old_circuit of (state, circuit) \<Rightarrow>
        let second_qubit = POS state + DIR state in
        if second_qubit < 0 \<or> second_qubit \<ge> N state
        then Inl (Exception ''Invalid selected qubit'')
        else Inr (state, circuit @ [(''cnot'', [POS state, second_qubit])]))"

text \<open>
  A sequence of the five operations on circuits, applied one after the other; the
  first raise ends the sequence, as the exception would.
\<close>

datatype state_op = MoveNext | MovePrev | ChangeDirection | Hadamard | Cnot

fun apply_state_op :: "state_op \<Rightarrow> circuit \<Rightarrow> exn + circuit" where
  "apply_state_op MoveNext c = move_next c"
| "apply_state_op MovePrev c = move_prev c"
| "apply_state_op ChangeDirection c = change_direction c"
| "apply_state_op Hadamard c = hadamard c"
| "apply_state_op Cnot c = cnot c"

fun apply_state_ops :: "state_op list \<Rightarrow> circuit \<Rightarrow> exn + circuit" where
  "apply_state_ops [] c = Inr c"
| "apply_state_ops (x # xs) c = call (apply_state_ops xs) (apply_state_op x c)"

text \<open>The property the operations are meant to keep: the selected qubit is one of the
  \<open>n\<close> qubits and the direction is one of the two directions.\<close>

definition state_ok :: "int \<Rightarrow> circuit \<Rightarrow> bool" where
  "state_ok n c = (case c of (state, circuit) \<Rightarrow>
     0 \<le> POS state \<and> POS state \<le> n - 1 \<and> (DIR state = 1 \<or> DIR state = - 1) \<and> N state = n)"

subsection \<open>Control: repetition\<close>

text \<open>
  \<^verbatim>\<open>_repeat_help\<close> counts \<^verbatim>\<open>n_times\<close> down to exactly \<open>1\<close>; called with \<open>n_times \<le> 0\<close> it
  would recurse for ever, so it is a partial function: \<open>None\<close> is "does not return".
  \<^verbatim>\<open>lambda b: new_body(body(b))\<close> runs \<^verbatim>\<open>body\<close> first; a raise there is a raise of the
  lambda.
\<close>

partial_function (option) repeat_help ::
  "int \<Rightarrow> ('a \<Rightarrow> exn + 'a) \<Rightarrow> ('a \<Rightarrow> exn + 'a) \<Rightarrow> ('a \<Rightarrow> exn + 'a) option" where
  "repeat_help n_times body new_body =
     (if n_times = 1 then Some new_body
      else repeat_help (n_times - 1) body (\<lambda>b. call new_body (body b)))"

text \<open>\<^verbatim>\<open>_repeat\<close>\<close>

definition repeat :: "int \<Rightarrow> ('a \<Rightarrow> exn + 'a) \<Rightarrow> (exn + ('a \<Rightarrow> exn + 'a)) option" where
  "repeat n_times body =
     (if n_times \<le> 0 then Some (Inl (Exception ''Invalid repetition number.''))
      else map_option Inr (repeat_help n_times body body))"

text \<open>What the repetition is meant to be: \<open>k\<close> successive applications of the body, the
  first to the argument, each next one to the result of the one before.\<close>

primrec successive :: "nat \<Rightarrow> ('a \<Rightarrow> exn + 'a) \<Rightarrow> 'a \<Rightarrow> exn + 'a" where
  "successive 0 body x = Inr x"
| "successive (Suc k) body x = call (successive k body) (body x)"

subsection \<open>Executing an algorithm\<close>

text \<open>
  \<^verbatim>\<open>execute_quantum_algorithm\<close> runs \<^verbatim>\<open>p.evaluate([])(n_qubits)\<close> under
  \<^verbatim>\<open>dc.utilities.runWithTimeout\<close> and turns the circuit into a matrix with
  \<^verbatim>\<open>state_circuit_to_mat\<close>, all inside one \<^verbatim>\<open>try\<close>. The timeout utility, the evaluation of
  the program and the tensor arithmetic are parameters: \<open>runWithTimeout\<close> takes the thunk
  and the timeout, \<open>evaluate\<close> is the program applied to the qubit count, and
  \<open>state_circuit_to_mat\<close> is the conversion; each may raise. The result is \<open>Inl e\<close> when
  the exception \<open>e\<close> leaves the function, \<open>Inr None\<close> for Python's \<^verbatim>\<open>None\<close>, and
  \<open>Inr (Some m)\<close> for a matrix.
\<close>

definition execute_quantum_algorithm ::
  "((unit \<Rightarrow> exn + 'c) \<Rightarrow> 't option \<Rightarrow> exn + 'c) \<Rightarrow> ('c \<Rightarrow> exn + 'm) \<Rightarrow>
   (int \<Rightarrow> exn + 'c) \<Rightarrow> int \<Rightarrow> 't option \<Rightarrow> exn + 'm option" where
  "execute_quantum_algorithm runWithTimeout state_circuit_to_mat evaluate n_qubits timeout =
     (case call state_circuit_to_mat (runWithTimeout (\<lambda>_. evaluate n_qubits) timeout) of
        Inr m \<Rightarrow> Inr (Some m)
      | Inl e \<Rightarrow> (if e = RunWithTimeout then Inr None else Inr None))"

section \<open>Properties of the quantum-circuit primitives\<close>

lemma call_Inr [simp]: "call f (Inr v) = f v"
  by (simp add: call_def)

lemma call_Inl [simp]: "call f (Inl e) = Inl e"
  by (simp add: call_def)

lemma call_assoc: "call g (call f r) = call (\<lambda>v. call g (f v)) r"
  by (cases r) simp_all

lemma successive_snoc: "successive (Suc k) body x = call body (successive k body x)"
proof (induction k arbitrary: x)
  case 0
  show ?case by (cases "body x") simp_all
next
  case (Suc k)
  have "successive (Suc (Suc k)) body x = call (successive (Suc k) body) (body x)"
    by simp
  also have "\<dots> = call (\<lambda>v. call body (successive k body v)) (body x)"
    using Suc.IH by presburger
  also have "\<dots> = call body (call (successive k body) (body x))"
    by (simp add: call_assoc)
  finally show ?case by simp
qed

lemma repeat_help_steps:
  "repeat_help (1 + int k) body new_body =
     Some (\<lambda>b. call new_body (successive k body b))"
proof (induction k arbitrary: new_body)
  case 0
  show ?case by (subst repeat_help.simps) simp
next
  case (Suc k)
  have "repeat_help (1 + int (Suc k)) body new_body =
        repeat_help (1 + int k) body (\<lambda>b. call new_body (body b))"
    by (subst repeat_help.simps) simp
  also have "\<dots> = Some (\<lambda>b. call (\<lambda>b. call new_body (body b)) (successive k body b))"
    by (rule Suc.IH)
  also have "\<dots> = Some (\<lambda>b. call new_body (successive (Suc k) body b))"
    by (simp only: successive_snoc call_assoc)
  finally show ?case .
qed

text \<open>
  C9. \<^verbatim>\<open>_repeat(n, body)\<close> raises when \<open>n \<le> 0\<close>; when \<open>n \<ge> 1\<close> it returns a function, and
  that function applied to any \<open>x\<close> is \<open>n\<close> successive applications of \<open>body\<close> to \<open>x\<close>.
\<close>

theorem repeat_n_fold:
  "(n \<le> 0 \<longrightarrow> (\<exists>e. repeat n body = Some (Inl e))) \<and>
   (1 \<le> n \<longrightarrow> (\<exists>f. repeat n body = Some (Inr f) \<and> (\<forall>x. f x = successive (nat n) body x)))"
proof (intro conjI impI)
  assume "n \<le> 0"
  then show "\<exists>e. repeat n body = Some (Inl e)" by (simp add: repeat_def)
next
  assume n: "1 \<le> n"
  define k where "k = nat (n - 1)"
  have nk: "n = 1 + int k" using n by (simp add: k_def)
  have "repeat_help n body body = Some (\<lambda>b. call body (successive k body b))"
    unfolding nk by (rule repeat_help_steps)
  then have "repeat n body = Some (Inr (\<lambda>b. successive (Suc k) body b))"
    using n by (simp add: repeat_def successive_snoc del: successive.simps)
  moreover have "Suc k = nat n" using n by (simp add: k_def)
  ultimately show "\<exists>f. repeat n body = Some (Inr f) \<and> (\<forall>x. f x = successive (nat n) body x)"
    by simp
qed

theorem repeat_n_fold_witness:
  "(0::int) \<le> 0 \<and> (\<exists>e. repeat 0 (\<lambda>x::int. Inr (x + 1)) = Some (Inl e)) \<and>
   (1::int) \<le> 3 \<and>
   (\<exists>f. repeat 3 (\<lambda>x::int. Inr (x + 1)) = Some (Inr f) \<and> f 0 = Inr 3)"
  using repeat_n_fold [of 0 "\<lambda>x::int. Inr (x + 1)"]
    repeat_n_fold [of 3 "\<lambda>x::int. Inr (x + 1)"]
  by (auto simp: eval_nat_numeral)

subsection \<open>The circuit state stays inside the register\<close>

lemma state_ok_no_op: "1 \<le> n \<Longrightarrow> state_ok n (no_op n)"
  by (simp add: state_ok_def no_op_def STATE_0_def DIR_NEXT_def)

lemma state_ok_step:
  "state_ok n c \<Longrightarrow> apply_state_op x c = Inr c' \<Longrightarrow> state_ok n c'"
  by (cases x; cases c)
    (auto simp: state_ok_def move_next_def move_prev_def change_direction_def
      hadamard_def cnot_def Let_def split: if_splits)

lemma state_ok_steps:
  "state_ok n c \<Longrightarrow> apply_state_ops xs c = Inr c' \<Longrightarrow> state_ok n c'"
proof (induction xs arbitrary: c)
  case Nil
  then show ?case by simp
next
  case (Cons x xs)
  show ?case
  proof (cases "apply_state_op x c")
    case (Inl e)
    with Cons.prems show ?thesis by simp
  next
    case (Inr d)
    with Cons.prems have "state_ok n d" and "apply_state_ops xs d = Inr c'"
      by (auto dest: state_ok_step)
    then show ?thesis by (rule Cons.IH)
  qed
qed

text \<open>
  C10, as the code has it. For a register of at least one qubit (\<open>n \<ge> 1\<close>), every
  sequence of \<^verbatim>\<open>_move_next\<close>, \<^verbatim>\<open>_move_prev\<close>, \<^verbatim>\<open>_change_direction\<close>, \<^verbatim>\<open>_hadamard\<close>, \<^verbatim>\<open>_cnot\<close>
  applied to \<^verbatim>\<open>_no_op(n)\<close> either raises or returns a state whose position is within
  \<open>0..n-1\<close>, whose direction is \<open>+1\<close> or \<open>-1\<close> and whose size is \<open>n\<close>. On any state,
  \<^verbatim>\<open>_move_next\<close> raises exactly when position \<open>\<ge> n-1\<close>, \<^verbatim>\<open>_move_prev\<close> exactly when
  position \<open>\<le> 0\<close>, \<^verbatim>\<open>_cnot\<close> exactly when position + direction is outside \<open>0..n-1\<close>, and
  \<^verbatim>\<open>_change_direction\<close> and \<^verbatim>\<open>_hadamard\<close> never raise.
\<close>

theorem state_ops_stay_in_register:
  "(1 \<le> n \<longrightarrow> (\<forall>c'. apply_state_ops xs (no_op n) = Inr c' \<longrightarrow> state_ok n c')) \<and>
   ((\<exists>e. move_next (s, g) = Inl e) \<longleftrightarrow> POS s \<ge> N s - 1) \<and>
   ((\<exists>e. move_prev (s, g) = Inl e) \<longleftrightarrow> POS s \<le> 0) \<and>
   ((\<exists>e. cnot (s, g) = Inl e) \<longleftrightarrow> (POS s + DIR s < 0 \<or> POS s + DIR s > N s - 1)) \<and>
   (\<forall>e. change_direction (s, g) \<noteq> Inl e) \<and> (\<forall>e. hadamard (s, g) \<noteq> Inl e)"
proof (intro conjI impI allI)
  fix c' assume "1 \<le> n" and "apply_state_ops xs (no_op n) = Inr c'"
  then show "state_ok n c'"
    using state_ok_no_op state_ok_steps by blast
qed (auto simp: move_next_def move_prev_def cnot_def change_direction_def hadamard_def Let_def)

theorem state_ops_stay_in_register_witness:
  "(1::int) \<le> 2 \<and>
   apply_state_ops [Hadamard, MoveNext, ChangeDirection, Cnot] (no_op 2) =
     Inr (\<lparr>POS = 1, DIR = - 1, N = 2\<rparr>, [(''hadamard'', [0]), (''cnot'', [1, 0])]) \<and>
   state_ok 2 (\<lparr>POS = 1, DIR = - 1, N = 2\<rparr>, [(''hadamard'', [0]), (''cnot'', [1, 0])]) \<and>
   (\<exists>e. move_next (\<lparr>POS = 1, DIR = - 1, N = 2\<rparr>, []) = Inl e)"
  using state_ops_stay_in_register [of 2 "[Hadamard, MoveNext, ChangeDirection, Cnot]"
      "\<lparr>POS = 1, DIR = - 1, N = 2\<rparr>" "[]"]
  by (simp add: no_op_def STATE_0_def DIR_NEXT_def hadamard_def move_next_def
      change_direction_def cnot_def Let_def)

text \<open>
  C10 as stated, for every \<open>n\<close>, fails on an empty register: \<^verbatim>\<open>_no_op(0)\<close> has position
  \<open>0\<close>, which is not within \<open>0..-1\<close>, and \<^verbatim>\<open>_hadamard\<close> returns that state without raising.
\<close>

theorem state_ops_empty_register_counterexample:
  "apply_state_ops [Hadamard] (no_op 0) =
     Inr (\<lparr>POS = 0, DIR = 1, N = 0\<rparr>, [(''hadamard'', [0])]) \<and>
   \<not> (0 \<le> POS \<lparr>POS = 0, DIR = 1, N = 0\<rparr> \<and> POS \<lparr>POS = 0, DIR = 1, N = 0\<rparr> \<le> 0 - 1)"
  by (simp add: no_op_def STATE_0_def DIR_NEXT_def hadamard_def)

subsection \<open>Execution never raises\<close>

text \<open>
  C8. \<^verbatim>\<open>execute_quantum_algorithm\<close> runs the evaluation under \<^verbatim>\<open>runWithTimeout\<close>; whatever
  is raised there, the timeout signal \<^verbatim>\<open>RunWithTimeout\<close> or any other exception, and
  whatever the conversion to a matrix raises, the result is \<^verbatim>\<open>None\<close>; no exception
  reaches the caller; and when nothing is raised the matrix is returned.
\<close>

theorem execute_quantum_algorithm_catches_all:
  "(\<forall>e. execute_quantum_algorithm runWithTimeout to_mat evaluate n timeout \<noteq> Inl e) \<and>
   (\<forall>e. runWithTimeout (\<lambda>_. evaluate n) timeout = Inl e \<longrightarrow>
      execute_quantum_algorithm runWithTimeout to_mat evaluate n timeout = Inr None) \<and>
   (\<forall>c e. runWithTimeout (\<lambda>_. evaluate n) timeout = Inr c \<and> to_mat c = Inl e \<longrightarrow>
      execute_quantum_algorithm runWithTimeout to_mat evaluate n timeout = Inr None) \<and>
   (\<forall>c m. runWithTimeout (\<lambda>_. evaluate n) timeout = Inr c \<and> to_mat c = Inr m \<longrightarrow>
      execute_quantum_algorithm runWithTimeout to_mat evaluate n timeout = Inr (Some m))"
  by (auto simp: execute_quantum_algorithm_def call_def split: sum.splits)

theorem execute_quantum_algorithm_catches_all_witness:
  "(\<lambda>k (t::nat option). Inl RunWithTimeout) (\<lambda>_. call cnot (Inr (no_op 1))) (Some 5)
      = (Inl RunWithTimeout :: exn + circuit) \<and>
   execute_quantum_algorithm (\<lambda>k (t::nat option). Inl RunWithTimeout)
      (\<lambda>c. Inr (N (fst c), snd c)) (\<lambda>n. cnot (no_op n)) 1 (Some 5) = Inr None \<and>
   (\<lambda>k (t::nat option). k ()) (\<lambda>_. cnot (no_op 1)) None
      = Inl (Exception ''Invalid selected qubit'') \<and>
   execute_quantum_algorithm (\<lambda>k (t::nat option). k ())
      (\<lambda>c. Inr (N (fst c), snd c)) (\<lambda>n. cnot (no_op n)) 1 None = Inr None \<and>
   execute_quantum_algorithm (\<lambda>k (t::nat option). k ())
      (\<lambda>c. Inr (N (fst c), snd c)) (\<lambda>n. hadamard (no_op n)) 1 None
      = Inr (Some (1, [(''hadamard'', [0])]))"
  using execute_quantum_algorithm_catches_all
      [of "\<lambda>k (t::nat option). Inl RunWithTimeout" "\<lambda>c. Inr (N (fst c), snd c)"
          "\<lambda>n. cnot (no_op n)" 1 "Some 5"]
    execute_quantum_algorithm_catches_all
      [of "\<lambda>k (t::nat option). k ()" "\<lambda>c. Inr (N (fst c), snd c)"
          "\<lambda>n. cnot (no_op n)" 1 None]
    execute_quantum_algorithm_catches_all
      [of "\<lambda>k (t::nat option). k ()" "\<lambda>c. Inr (N (fst c), snd c)"
          "\<lambda>n. hadamard (no_op n)" 1 None]
  by (simp add: no_op_def STATE_0_def DIR_NEXT_def hadamard_def cnot_def Let_def)

end
